theory Spec2Isabelle
  imports Complex_Main
begin

section \<open>JavaScript values\<close>

text \<open>
  The module \<^verbatim>\<open>src/actions/userActions.ts\<close> is a set of asynchronous functions, each of
  which issues at most one HTTP request with \<^verbatim>\<open>fetch\<close>, looks at the answer, and then
  returns, raises, and signals the framework (\<^verbatim>\<open>revalidatePath\<close>, \<^verbatim>\<open>redirect\<close>).
  The embedding makes each function a HOL function of the process environment, of the
  backend (a function from the request to what \<^verbatim>\<open>fetch\<close> settles with) and of the
  function's own arguments; its value is the pair of the outcome (returned value or raised
  error) and the list of effects in the order the source performs them.

  Numbers are IEEE doubles in JavaScript. The model keeps \<open>NaN\<close> and the two infinities
  and takes every finite number as the rational it denotes: rounding (integers beyond
  \<open>2^53\<close>, underflow, overflow) and the sign of zero are not modelled.
  A string is the list of its code units; code units above 255 are not modelled.
\<close>

datatype jsnum = NaN | PosInf | NegInf | Fin rat

datatype jsval =
    JUndefined
  | JNull
  | JBool bool
  | JNum jsnum
  | JStr string
  | JArr "jsval list"
  | JObj "(string \<times> jsval) list"

datatype js_error = Error string | TypeError string | SyntaxError string

datatype 'a outcome = Returned 'a | Raised js_error

text \<open>Truthiness (\<^verbatim>\<open>!x\<close>, \<^verbatim>\<open>x || y\<close>, \<^verbatim>\<open>if (x)\<close>) and nullishness (\<^verbatim>\<open>x ?? y\<close>).\<close>

fun num_truthy :: "jsnum \<Rightarrow> bool" where
  "num_truthy NaN = False"
| "num_truthy PosInf = True"
| "num_truthy NegInf = True"
| "num_truthy (Fin r) = (r \<noteq> 0)"

fun truthy :: "jsval \<Rightarrow> bool" where
  "truthy JUndefined = False"
| "truthy JNull = False"
| "truthy (JBool b) = b"
| "truthy (JNum n) = num_truthy n"
| "truthy (JStr s) = (s \<noteq> [])"
| "truthy (JArr xs) = True"
| "truthy (JObj kvs) = True"

fun nullish :: "jsval \<Rightarrow> bool" where
  "nullish JUndefined = True"
| "nullish JNull = True"
| "nullish (JBool b) = False"
| "nullish (JNum n) = False"
| "nullish (JStr s) = False"
| "nullish (JArr xs) = False"
| "nullish (JObj kvs) = False"

text \<open>\<^verbatim>\<open>a || b\<close> and \<^verbatim>\<open>a ?? b\<close> on values, and \<^verbatim>\<open>a || b\<close> on two numbers.\<close>

definition js_or :: "jsval \<Rightarrow> jsval \<Rightarrow> jsval" where
  "js_or a b = (if truthy a then a else b)"

definition js_coalesce :: "jsval \<Rightarrow> jsval \<Rightarrow> jsval" where
  "js_coalesce a b = (if nullish a then b else a)"

definition num_or :: "jsnum \<Rightarrow> jsnum \<Rightarrow> jsnum" where
  "num_or a b = (if num_truthy a then a else b)"

text \<open>
  Reading a property \<^verbatim>\<open>v.k\<close>. An object (as \<^verbatim>\<open>JSON.parse\<close> builds it, a list of its own
  properties) gives the property's value, or \<^verbatim>\<open>undefined\<close> when it has none. The module
  reads only the names \<^verbatim>\<open>content\<close>, \<^verbatim>\<open>totalPages\<close>, \<^verbatim>\<open>first\<close>, \<^verbatim>\<open>last\<close>, \<^verbatim>\<open>number\<close> and
  \<^verbatim>\<open>error\<close>, none of which a boolean, a number, a string or an array has, so these give
  \<^verbatim>\<open>undefined\<close>. On \<^verbatim>\<open>null\<close> and \<^verbatim>\<open>undefined\<close> the read raises a TypeError.
\<close>

fun field :: "jsval \<Rightarrow> string \<Rightarrow> jsval" where
  "field (JObj kvs) k = (case map_of kvs k of None \<Rightarrow> JUndefined | Some v \<Rightarrow> v)"
| "field JUndefined k = JUndefined"
| "field JNull k = JUndefined"
| "field (JBool b) k = JUndefined"
| "field (JNum n) k = JUndefined"
| "field (JStr s) k = JUndefined"
| "field (JArr xs) k = JUndefined"

definition get_prop :: "jsval \<Rightarrow> string \<Rightarrow> js_error + jsval" where
  "get_prop v k =
     (if nullish v then Inl (TypeError ''Cannot read properties of null or undefined'')
      else Inr (field v k))"

subsection \<open>Arithmetic and comparison on numbers\<close>

fun js_add :: "jsnum \<Rightarrow> jsnum \<Rightarrow> jsnum" where
  "js_add (Fin a) (Fin b) = Fin (a + b)"
| "js_add NaN y = NaN"
| "js_add x NaN = NaN"
| "js_add PosInf NegInf = NaN"
| "js_add NegInf PosInf = NaN"
| "js_add PosInf y = PosInf"
| "js_add NegInf y = NegInf"
| "js_add (Fin a) PosInf = PosInf"
| "js_add (Fin a) NegInf = NegInf"

text \<open>\<^verbatim>\<open>a >= b\<close> on two numbers: false as soon as one is \<open>NaN\<close>.\<close>

fun js_ge :: "jsnum \<Rightarrow> jsnum \<Rightarrow> bool" where
  "js_ge (Fin a) (Fin b) = (b \<le> a)"
| "js_ge NaN y = False"
| "js_ge x NaN = False"
| "js_ge PosInf y = True"
| "js_ge x NegInf = True"
| "js_ge NegInf y = False"
| "js_ge (Fin a) PosInf = False"

text \<open>\<^verbatim>\<open>a === b\<close> on two numbers: \<open>NaN\<close> equals nothing, itself included.\<close>

definition js_strict_eq_num :: "jsnum \<Rightarrow> jsnum \<Rightarrow> bool" where
  "js_strict_eq_num a b = (a \<noteq> NaN \<and> b \<noteq> NaN \<and> a = b)"

subsection \<open>\<^verbatim>\<open>Number(s)\<close> on a string\<close>

text \<open>
  ECMAScript's StringToNumber: the string, with white space trimmed at both ends, is
  empty (the value 0), a binary, octal or hexadecimal integer literal, or a signed decimal
  literal (\<^verbatim>\<open>Infinity\<close>, digits with an optional fraction and exponent); anything else is
  \<open>NaN\<close>. The white space among the code units below 256 is TAB, LF, VT, FF, CR, SP and NBSP.
\<close>

definition StrWhiteSpaceChar :: "char \<Rightarrow> bool" where
  "StrWhiteSpaceChar c = ((of_char c :: nat) \<in> set [9, 10, 11, 12, 13, 32, 160])"

definition trimString :: "string \<Rightarrow> string" where
  "trimString s = rev (dropWhile StrWhiteSpaceChar (rev (dropWhile StrWhiteSpaceChar s)))"

definition digitValue :: "char \<Rightarrow> nat option" where
  "digitValue c =
     (let n = (of_char c :: nat) in
      if 48 \<le> n \<and> n \<le> 57 then Some (n - 48)
      else if 97 \<le> n \<and> n \<le> 102 then Some (n - 87)
      else if 65 \<le> n \<and> n \<le> 70 then Some (n - 55)
      else None)"

definition isDecimalDigit :: "char \<Rightarrow> bool" where
  "isDecimalDigit c = (48 \<le> (of_char c :: nat) \<and> (of_char c :: nat) \<le> 57)"

fun digitsValue :: "nat \<Rightarrow> nat \<Rightarrow> string \<Rightarrow> nat option" where
  "digitsValue b acc [] = Some acc"
| "digitsValue b acc (c # cs) =
     (case digitValue c of
        None \<Rightarrow> None
      | Some d \<Rightarrow> if d < b then digitsValue b (acc * b + d) cs else None)"

definition DecimalDigits :: "string \<Rightarrow> nat option" where
  "DecimalDigits s = (if s = [] then None else digitsValue 10 0 s)"

definition SignedInteger :: "string \<Rightarrow> int option" where
  "SignedInteger s =
     (case s of
        [] \<Rightarrow> None
      | c # cs \<Rightarrow>
          if c = CHR ''+'' then map_option int (DecimalDigits cs)
          else if c = CHR ''-'' then map_option (\<lambda>n. - int n) (DecimalDigits cs)
          else map_option int (DecimalDigits s))"

definition ExponentPart :: "string \<Rightarrow> int option" where
  "ExponentPart s =
     (case s of
        [] \<Rightarrow> Some 0
      | c # cs \<Rightarrow> if c = CHR ''e'' \<or> c = CHR ''E'' then SignedInteger cs else None)"

definition scale10 :: "nat \<Rightarrow> int \<Rightarrow> rat" where
  "scale10 m e = (if 0 \<le> e then of_nat m * 10 ^ nat e else of_nat m / 10 ^ nat (- e))"

definition StrUnsignedDecimalLiteral :: "string \<Rightarrow> jsnum" where
  "StrUnsignedDecimalLiteral s =
     (if s = ''Infinity'' then PosInf
      else
        let ip = takeWhile isDecimalDigit s;
            r1 = dropWhile isDecimalDigit s;
            fp = (case r1 of
                    [] \<Rightarrow> []
                  | c # cs \<Rightarrow> if c = CHR ''.'' then takeWhile isDecimalDigit cs else []);
            r2 = (case r1 of
                    [] \<Rightarrow> []
                  | c # cs \<Rightarrow> if c = CHR ''.'' then dropWhile isDecimalDigit cs else r1)
        in if ip = [] \<and> fp = [] then NaN
           else
             (case (digitsValue 10 0 (ip @ fp), ExponentPart r2) of
                (Some m, Some e) \<Rightarrow> Fin (scale10 m (e - int (length fp)))
              | _ \<Rightarrow> NaN))"

fun js_neg :: "jsnum \<Rightarrow> jsnum" where
  "js_neg NaN = NaN"
| "js_neg PosInf = NegInf"
| "js_neg NegInf = PosInf"
| "js_neg (Fin r) = Fin (- r)"

definition StrDecimalLiteral :: "string \<Rightarrow> jsnum" where
  "StrDecimalLiteral s =
     (case s of
        [] \<Rightarrow> NaN
      | c # cs \<Rightarrow>
          if c = CHR ''+'' then StrUnsignedDecimalLiteral cs
          else if c = CHR ''-'' then js_neg (StrUnsignedDecimalLiteral cs)
          else StrUnsignedDecimalLiteral s)"

definition NonDecimalIntegerLiteral :: "string \<Rightarrow> nat option" where
  "NonDecimalIntegerLiteral s =
     (case s of
        z # p # ds \<Rightarrow>
          if z \<noteq> CHR ''0'' \<or> ds = [] then None
          else if p = CHR ''b'' \<or> p = CHR ''B'' then digitsValue 2 0 ds
          else if p = CHR ''o'' \<or> p = CHR ''O'' then digitsValue 8 0 ds
          else if p = CHR ''x'' \<or> p = CHR ''X'' then digitsValue 16 0 ds
          else None
      | _ \<Rightarrow> None)"

definition StringToNumber :: "string \<Rightarrow> jsnum" where
  "StringToNumber s =
     (let t = trimString s in
      if t = [] then Fin 0
      else
        (case NonDecimalIntegerLiteral t of
           Some n \<Rightarrow> Fin (of_nat n)
         | None \<Rightarrow> StrDecimalLiteral t))"

text \<open>
  \<^verbatim>\<open>Number(v)\<close> on any value (ToNumber). An array is first turned into the string of its
  elements joined by commas, so the empty array is 0, an array of one element is what the
  element's string denotes (a number printed and read again is the same number, \<^verbatim>\<open>null\<close>
  prints as the empty string), and a longer array is \<open>NaN\<close>; an object is \<open>NaN\<close>.
  The module applies it to the page parameter and, in \<^verbatim>\<open>>=\<close>, to \<^verbatim>\<open>data.totalPages ?? 1\<close>.
\<close>

fun ToNumber :: "jsval \<Rightarrow> jsnum" where
  "ToNumber JUndefined = NaN"
| "ToNumber JNull = Fin 0"
| "ToNumber (JBool b) = Fin (if b then 1 else 0)"
| "ToNumber (JNum n) = n"
| "ToNumber (JStr s) = StringToNumber s"
| "ToNumber (JObj kvs) = NaN"
| "ToNumber (JArr []) = Fin 0"
| "ToNumber (JArr [JUndefined]) = Fin 0"
| "ToNumber (JArr [JNull]) = Fin 0"
| "ToNumber (JArr [JBool b]) = NaN"
| "ToNumber (JArr [JNum n]) = n"
| "ToNumber (JArr [JStr s]) = StringToNumber s"
| "ToNumber (JArr [JObj kvs]) = NaN"
| "ToNumber (JArr [JArr xs]) = ToNumber (JArr xs)"
| "ToNumber (JArr (x # y # zs)) = NaN"

text \<open>Decimal digits of a natural number, as \<^verbatim>\<open>String(n)\<close> writes an HTTP status.\<close>

fun showNat :: "nat \<Rightarrow> string" where
  "showNat n =
     (if n < 10 then [char_of (48 + n)]
      else showNat (n div 10) @ [char_of (48 + n mod 10)])"

declare showNat.simps [simp del]

section \<open>The environment: configuration, backend, effects\<close>

text \<open>
  \<^verbatim>\<open>const BASE_URL = process.env.BASE_URL || "http://localhost:8080"\<close>: the environment
  variable is absent (\<open>None\<close>) or a string, and the empty string is falsy.
\<close>

definition BASE_URL :: "string option \<Rightarrow> string" where
  "BASE_URL env =
     (case env of
        None \<Rightarrow> ''http://localhost:8080''
      | Some s \<Rightarrow> if s = [] then ''http://localhost:8080'' else s)"

text \<open>
  A request as \<^verbatim>\<open>fetch(url, options)\<close> receives it. The numbers a template literal puts
  into the query string (\<^verbatim>\<open>?page=${currentPage}&size=${size}\<close>) are kept as numbers in
  \<open>req_query\<close>, not printed; the object given to \<^verbatim>\<open>JSON.stringify\<close> is kept as a value
  in \<open>req_body\<close>.
\<close>

datatype cache_option = CacheDefault | CacheNoStore | NextRevalidate nat

record request =
  req_url :: string
  req_query :: "(string \<times> jsnum) list"
  req_method :: string
  req_headers :: "(string \<times> string) list"
  req_body :: "jsval option"
  req_cache :: cache_option

text \<open>
  What the module reads of a response: \<^verbatim>\<open>res.ok\<close>, \<^verbatim>\<open>res.status\<close>, \<^verbatim>\<open>await res.text()\<close>
  and \<^verbatim>\<open>res.json()\<close>. The last one settles with the parsed body, or rejects (\<open>Inl\<close>) when
  the body cannot be read or is not JSON. The text is read only on responses that are not
  OK, for the message of the error that is raised then; reading it is taken to succeed.
\<close>

record response =
  res_ok :: bool
  res_status :: nat
  res_text :: string
  res_json :: "js_error + jsval"

text \<open>\<^verbatim>\<open>await fetch(...)\<close> rejects (the transport failed) or resolves with a response.\<close>

datatype fetch_outcome = Rejects js_error | Resolves response

type_synonym backend = "request \<Rightarrow> fetch_outcome"

text \<open>
  The effects, in the order they happen. Console messages keep their fixed text only
  (without the pictograph that starts it in the source). \<^verbatim>\<open>revalidatePath\<close> and
  \<^verbatim>\<open>redirect\<close> are signals to the framework, recorded as the module's tests observe them
  (the calls and their arguments); both functions that redirect do so as their last step.
\<close>

datatype event =
    Fetch request
  | RevalidatePath string
  | Redirect string
  | ConsoleLog string
  | ConsoleError string

type_synonym 'a run = "'a outcome \<times> event list"

definition fetches :: "event list \<Rightarrow> request list" where
  "fetches tr = concat (map (\<lambda>e. case e of Fetch r \<Rightarrow> [r] | _ \<Rightarrow> []) tr)"

definition revalidations :: "event list \<Rightarrow> string list" where
  "revalidations tr = concat (map (\<lambda>e. case e of RevalidatePath p \<Rightarrow> [p] | _ \<Rightarrow> []) tr)"

definition redirects :: "event list \<Rightarrow> string list" where
  "redirects tr = concat (map (\<lambda>e. case e of Redirect p \<Rightarrow> [p] | _ \<Rightarrow> []) tr)"

section \<open>The operations of \<^verbatim>\<open>userActions.ts\<close>\<close>

subsection \<open>Deleting a user\<close>

definition delete_request :: "string option \<Rightarrow> string \<Rightarrow> request" where
  "delete_request env uid =
     \<lparr> req_url = BASE_URL env @ ''/api/v1/users/'' @ uid,
       req_query = [],
       req_method = ''DELETE'',
       req_headers = [(''Content-Type'', ''application/json'')],
       req_body = None,
       req_cache = CacheDefault \<rparr>"

definition deleteUserFromHome :: "string option \<Rightarrow> backend \<Rightarrow> string \<Rightarrow> unit run" where
  "deleteUserFromHome env fetch uid =
     (if uid = [] then (Raised (Error ''User ID required''), [])
      else
        (case fetch (delete_request env uid) of
           Rejects e \<Rightarrow> (Raised e, [Fetch (delete_request env uid)])
         | Resolves res \<Rightarrow>
             if \<not> res_ok res then
               (Raised (Error (''Delete failed ('' @ showNat (res_status res) @ '')'')),
                [Fetch (delete_request env uid), ConsoleError ''Failed to delete user:''])
             else
               (Returned (), [Fetch (delete_request env uid), RevalidatePath ''/users''])))"

definition deleteUser :: "string option \<Rightarrow> backend \<Rightarrow> string \<Rightarrow> unit run" where
  "deleteUser env fetch uid =
     (if uid = [] then (Raised (Error ''User ID required''), [])
      else
        (case fetch (delete_request env uid) of
           Rejects e \<Rightarrow> (Raised e, [Fetch (delete_request env uid)])
         | Resolves res \<Rightarrow>
             if \<not> res_ok res then
               (Raised (Error (''Delete failed ('' @ showNat (res_status res) @ '')'')),
                [Fetch (delete_request env uid), ConsoleError ''Failed to delete user:''])
             else
               (Returned (),
                [Fetch (delete_request env uid), RevalidatePath ''/users'',
                 Redirect ''/users?page=0''])))"

subsection \<open>The paged list of users\<close>

text \<open>
  \<^verbatim>\<open>searchParams?: { page?: string }\<close>: the argument is absent (\<open>None\<close>) or an object whose
  \<open>page\<close> is absent or a string. The result is the object literal the function returns;
  its fields are values as JavaScript computes them, \<open>page_size\<close> is the field \<^verbatim>\<open>size\<close>.
\<close>

record search_params =
  page :: "string option"

record users_page =
  users :: jsval
  totalPages :: jsval
  isFirst :: jsval
  isLast :: jsval
  pageNumber :: jsval
  page_size :: jsnum

text \<open>
  \<^verbatim>\<open>const { page: pageParam } = (await searchParams) || { page: "0" }\<close>: an object is truthy,
  so the default applies only when the argument itself is absent.
\<close>

definition pageParam_of :: "search_params option \<Rightarrow> jsval" where
  "pageParam_of searchParams =
     (case searchParams of
        None \<Rightarrow> JStr ''0''
      | Some sp \<Rightarrow> (case page sp of None \<Rightarrow> JUndefined | Some s \<Rightarrow> JStr s))"

definition users_request :: "string option \<Rightarrow> jsnum \<Rightarrow> jsnum \<Rightarrow> request" where
  "users_request env currentPage sz =
     \<lparr> req_url = BASE_URL env @ ''/api/v1/users'',
       req_query = [(''page'', currentPage), (''size'', sz)],
       req_method = ''GET'',
       req_headers = [],
       req_body = None,
       req_cache = NextRevalidate 30 \<rparr>"

text \<open>
  \<^verbatim>\<open>getUsers\<close> of \<^verbatim>\<open>src/actions/userActions.ts\<close>, with
  \<^verbatim>\<open>const currentPage = Number(pageParam) || 0\<close>. The first property read,
  \<^verbatim>\<open>data.content\<close>, raises when the payload is \<^verbatim>\<open>null\<close>; the later reads cannot.
  \<^verbatim>\<open>??\<close> binds weaker than \<^verbatim>\<open>===\<close>, \<^verbatim>\<open>+\<close> and \<^verbatim>\<open>>=\<close>.
\<close>

definition getUsers :: "string option \<Rightarrow> backend \<Rightarrow> search_params option \<Rightarrow> users_page run" where
  "getUsers env fetch searchParams =
     (let pageParam = pageParam_of searchParams;
          currentPage = num_or (ToNumber pageParam) (Fin 0);
          sz = Fin 5;
          req = users_request env currentPage sz
      in case fetch req of
           Rejects e \<Rightarrow> (Raised e, [Fetch req])
         | Resolves res \<Rightarrow>
             if \<not> res_ok res then
               (Raised (Error ''Failed to fetch users''),
                [Fetch req, ConsoleError ''Failed to fetch users:''])
             else
               (case res_json res of
                  Inl e \<Rightarrow> (Raised e, [Fetch req])
                | Inr data \<Rightarrow>
                    (case get_prop data ''content'' of
                       Inl e \<Rightarrow> (Raised e, [Fetch req])
                     | Inr content \<Rightarrow>
                         (Returned
                            \<lparr> users = js_or content (JArr []),
                              totalPages = js_coalesce (field data ''totalPages'') (JNum (Fin 1)),
                              isFirst =
                                js_coalesce (field data ''first'')
                                  (JBool (js_strict_eq_num currentPage (Fin 0))),
                              isLast =
                                js_coalesce (field data ''last'')
                                  (JBool
                                     (js_ge (js_add currentPage (Fin 1))
                                        (ToNumber
                                           (js_coalesce (field data ''totalPages'')
                                              (JNum (Fin 1)))))),
                              pageNumber = js_coalesce (field data ''number'') (JNum currentPage),
                              page_size = sz \<rparr>,
                          [Fetch req]))))"

text \<open>
  The copy of \<^verbatim>\<open>getUsers\<close> in \<^verbatim>\<open>lib/api.ts\<close> (the last part of \<^verbatim>\<open>src/unnamed/part_001\<close>):
  the same text, but \<^verbatim>\<open>const currentPage = Number(pageParam)\<close>.
\<close>

definition getUsers_lib :: "string option \<Rightarrow> backend \<Rightarrow> search_params option \<Rightarrow> users_page run" where
  "getUsers_lib env fetch searchParams =
     (let pageParam = pageParam_of searchParams;
          currentPage = ToNumber pageParam;
          sz = Fin 5;
          req = users_request env currentPage sz
      in case fetch req of
           Rejects e \<Rightarrow> (Raised e, [Fetch req])
         | Resolves res \<Rightarrow>
             if \<not> res_ok res then
               (Raised (Error ''Failed to fetch users''),
                [Fetch req, ConsoleError ''Failed to fetch users:''])
             else
               (case res_json res of
                  Inl e \<Rightarrow> (Raised e, [Fetch req])
                | Inr data \<Rightarrow>
                    (case get_prop data ''content'' of
                       Inl e \<Rightarrow> (Raised e, [Fetch req])
                     | Inr content \<Rightarrow>
                         (Returned
                            \<lparr> users = js_or content (JArr []),
                              totalPages = js_coalesce (field data ''totalPages'') (JNum (Fin 1)),
                              isFirst =
                                js_coalesce (field data ''first'')
                                  (JBool (js_strict_eq_num currentPage (Fin 0))),
                              isLast =
                                js_coalesce (field data ''last'')
                                  (JBool
                                     (js_ge (js_add currentPage (Fin 1))
                                        (ToNumber
                                           (js_coalesce (field data ''totalPages'')
                                              (JNum (Fin 1)))))),
                              pageNumber = js_coalesce (field data ''number'') (JNum currentPage),
                              page_size = sz \<rparr>,
                          [Fetch req]))))"

subsection \<open>Reading preferences and posts\<close>

definition read_request :: "string \<Rightarrow> request" where
  "read_request u =
     \<lparr> req_url = u,
       req_query = [],
       req_method = ''GET'',
       req_headers = [],
       req_body = None,
       req_cache = CacheNoStore \<rparr>"

text \<open>
  \<^verbatim>\<open>getUserPreferences\<close>: the whole body is inside \<^verbatim>\<open>try\<close>, and the payload is awaited
  there (\<^verbatim>\<open>const data = await res.json()\<close>), so a rejected \<^verbatim>\<open>fetch\<close>, a rejected
  \<^verbatim>\<open>res.json()\<close> and a TypeError of \<^verbatim>\<open>data.error\<close> all reach the \<^verbatim>\<open>catch\<close>.
\<close>

definition getUserPreferences :: "string option \<Rightarrow> backend \<Rightarrow> string \<Rightarrow> jsval run" where
  "getUserPreferences env fetch uid =
     (let req = read_request (BASE_URL env @ ''/api/v1/users/'' @ uid @ ''/preferences'')
      in case fetch req of
           Rejects e \<Rightarrow> (Returned JNull, [Fetch req, ConsoleError ''No preferences found:''])
         | Resolves res \<Rightarrow>
             if \<not> res_ok res then (Returned JNull, [Fetch req])
             else
               (case res_json res of
                  Inl e \<Rightarrow> (Returned JNull, [Fetch req, ConsoleError ''No preferences found:''])
                | Inr data \<Rightarrow>
                    (case get_prop data ''error'' of
                       Inl e \<Rightarrow>
                         (Returned JNull, [Fetch req, ConsoleError ''No preferences found:''])
                     | Inr err \<Rightarrow>
                         if truthy err then (Returned JNull, [Fetch req])
                         else (Returned data, [Fetch req]))))"

text \<open>
  \<^verbatim>\<open>getUserPosts\<close>: the last statement of the \<^verbatim>\<open>try\<close> block is \<^verbatim>\<open>return res.json()\<close>,
  without \<^verbatim>\<open>await\<close>. An asynchronous function that returns a promise leaves its \<^verbatim>\<open>try\<close>
  block at once and settles as that promise does, so a rejection of \<^verbatim>\<open>res.json()\<close> does
  not reach the \<^verbatim>\<open>catch\<close>: the caller's \<^verbatim>\<open>await getUserPosts(id)\<close> raises it.
\<close>

definition getUserPosts :: "string option \<Rightarrow> backend \<Rightarrow> string \<Rightarrow> jsval run" where
  "getUserPosts env fetch uid =
     (let req = read_request (BASE_URL env @ ''/api/v1/users/'' @ uid @ ''/posts'')
      in case fetch req of
           Rejects e \<Rightarrow> (Returned (JArr []), [Fetch req, ConsoleError ''No posts found:''])
         | Resolves res \<Rightarrow>
             if \<not> res_ok res then (Returned (JArr []), [Fetch req])
             else
               (case res_json res of
                  Inl e \<Rightarrow> (Raised e, [Fetch req])
                | Inr v \<Rightarrow> (Returned v, [Fetch req])))"

subsection \<open>Creating a user\<close>

text \<open>
  A \<^verbatim>\<open>FormData\<close> is the list of its entries in order (file entries are not modelled):
  \<^verbatim>\<open>get\<close> gives the first value of a name or \<^verbatim>\<open>null\<close>, \<^verbatim>\<open>getAll\<close> every value of it.
\<close>

type_synonym FormData = "(string \<times> string) list"

definition formData_get :: "FormData \<Rightarrow> string \<Rightarrow> jsval" where
  "formData_get fd k = (case map_of fd k of None \<Rightarrow> JNull | Some v \<Rightarrow> JStr v)"

definition formData_getAll :: "FormData \<Rightarrow> string \<Rightarrow> jsval" where
  "formData_getAll fd k = JArr (map (\<lambda>e. JStr (snd e)) (filter (\<lambda>e. fst e = k) fd))"

record add_result =
  success :: bool
  error :: "string option"

definition addUser_request :: "string option \<Rightarrow> FormData \<Rightarrow> request" where
  "addUser_request env formData =
     (let username = formData_get formData ''username'';
          email = formData_get formData ''email'';
          name = formData_get formData ''name'';
          roles = formData_getAll formData ''roles''
      in \<lparr> req_url = BASE_URL env @ ''/api/v1/users'',
           req_query = [],
           req_method = ''POST'',
           req_headers = [(''Content-Type'', ''application/json'')],
           req_body =
             Some (JObj [(''username'', username), (''email'', email), (''name'', name),
                         (''roles'', roles), (''status'', JStr ''ACTIVE'')]),
           req_cache = CacheDefault \<rparr>)"

text \<open>
  \<^verbatim>\<open>addUser\<close>: the request, the \<^verbatim>\<open>throw\<close> on a response that is not OK and
  \<^verbatim>\<open>revalidatePath\<close> are inside \<^verbatim>\<open>try\<close>; the \<^verbatim>\<open>catch\<close> logs and returns the failure record.
\<close>

definition addUser :: "string option \<Rightarrow> backend \<Rightarrow> FormData \<Rightarrow> add_result run" where
  "addUser env fetch formData =
     (let req = addUser_request env formData
      in case fetch req of
           Rejects e \<Rightarrow>
             (Returned \<lparr> success = False, error = Some ''Failed to add user'' \<rparr>,
              [Fetch req, ConsoleError ''Error adding user:''])
         | Resolves res \<Rightarrow>
             if \<not> res_ok res then
               (Returned \<lparr> success = False, error = Some ''Failed to add user'' \<rparr>,
                [Fetch req, ConsoleError ''Error adding user:''])
             else
               (Returned \<lparr> success = True, error = None \<rparr>,
                [Fetch req, RevalidatePath ''/users'']))"







subsection \<open>Changing a user's status\<close>

datatype user_status = ACTIVE | INACTIVE

fun status_string :: "user_status \<Rightarrow> string" where
  "status_string ACTIVE = ''ACTIVE''"
| "status_string INACTIVE = ''INACTIVE''"

definition toggle_request :: "string option \<Rightarrow> string \<Rightarrow> user_status \<Rightarrow> request" where
  "toggle_request env uid status =
     \<lparr> req_url = BASE_URL env @ ''/api/v1/users/'' @ uid,
       req_query = [],
       req_method = ''PATCH'',
       req_headers = [(''Content-Type'', ''application/json'')],
       req_body = Some (JObj [(''status'', JStr (status_string status))]),
       req_cache = CacheDefault \<rparr>"


subsection \<open>Posts and default preferences\<close>

definition createUserPost_request :: "string option \<Rightarrow> string \<Rightarrow> string \<Rightarrow> string \<Rightarrow> request" where
  "createUserPost_request env userId title content =
     \<lparr> req_url = BASE_URL env @ ''/api/v1/users/'' @ userId @ ''/posts'',
       req_query = [],
       req_method = ''POST'',
       req_headers = [(''Content-Type'', ''application/json'')],
       req_body = Some (JObj [(''title'', JStr title), (''content'', JStr content)]),
       req_cache = CacheDefault \<rparr>"


definition softDeletePost_request :: "string option \<Rightarrow> string \<Rightarrow> request" where
  "softDeletePost_request env postId =
     \<lparr> req_url = BASE_URL env @ ''/api/v1/posts/'' @ postId,
       req_query = [],
       req_method = ''DELETE'',
       req_headers = [],
       req_body = None,
       req_cache = CacheDefault \<rparr>"


definition createDefaultPreferences_request :: "string option \<Rightarrow> string \<Rightarrow> request" where
  "createDefaultPreferences_request env userId =
     \<lparr> req_url = BASE_URL env @ ''/api/v1/users/'' @ userId @ ''/preferences'',
       req_query = [],
       req_method = ''PUT'',
       req_headers = [(''Content-Type'', ''application/json'')],
       req_body =
         Some (JObj [(''theme'', JStr ''light''), (''language'', JStr ''en''),
                     (''notificationsEnabled'', JBool True)]),
       req_cache = CacheDefault \<rparr>"


section \<open>Vocabulary of the properties\<close>



fun is_ok :: "fetch_outcome \<Rightarrow> bool" where
  "is_ok (Rejects e) = False"
| "is_ok (Resolves res) = res_ok res"





text \<open>Backends for concrete runs: one that answers every request alike, one that rejects.\<close>

definition respond :: "response \<Rightarrow> backend" where
  "respond res req = Resolves res"

definition unreachable :: backend where
  "unreachable req = Rejects (TypeError ''fetch failed'')"

definition ok_response :: "jsval \<Rightarrow> response" where
  "ok_response v = \<lparr> res_ok = True, res_status = 200, res_text = [], res_json = Inr v \<rparr>"

definition error_response :: "nat \<Rightarrow> response" where
  "error_response n =
     \<lparr> res_ok = False, res_status = n, res_text = [],
       res_json = Inl (SyntaxError ''Unexpected end of JSON input'') \<rparr>"

section \<open>Properties\<close>

subsection \<open>Helper facts\<close>



lemmas request_defs =
  addUser_request_def delete_request_def toggle_request_def createUserPost_request_def
  softDeletePost_request_def createDefaultPreferences_request_def users_request_def
  read_request_def BASE_URL_def

lemmas backend_defs = respond_def unreachable_def ok_response_def error_response_def

lemmas number_defs =
  StringToNumber_def trimString_def StrWhiteSpaceChar_def NonDecimalIntegerLiteral_def
  StrDecimalLiteral_def StrUnsignedDecimalLiteral_def isDecimalDigit_def digitValue_def
  ExponentPart_def scale10_def

lemmas getUsers_defs =
  getUsers_def getUsers_lib_def pageParam_of_def Let_def num_or_def get_prop_def js_or_def
  js_coalesce_def js_strict_eq_num_def





lemma Number_abc: "StringToNumber ''abc'' = NaN"
  by (simp add: number_defs)

text \<open>
  \<^verbatim>\<open>Number\<close> reads the decimal numeral of a natural number as that number, so every page
  index has a page parameter that denotes it.
\<close>

lemma showNat_digits: "showNat n \<noteq> [] \<and> (\<forall>c \<in> set (showNat n). isDecimalDigit c)"
proof (induction n rule: showNat.induct)
  case (1 n)
  show ?case
  proof (cases "n < 10")
    case True
    then show ?thesis
      by (subst showNat.simps, subst (2) showNat.simps) (simp add: isDecimalDigit_def)
  next
    case False
    have "n mod 10 < 10" by simp
    then have "isDecimalDigit (char_of (48 + n mod 10))"
      by (simp add: isDecimalDigit_def)
    with False 1 show ?thesis
      by (subst showNat.simps, subst (2) showNat.simps) auto
  qed
qed

lemma digitsValue_append:
  "digitsValue b acc (xs @ ys)
   = (case digitsValue b acc xs of None \<Rightarrow> None | Some a \<Rightarrow> digitsValue b a ys)"
  by (induction xs arbitrary: acc) (auto split: option.splits)

lemma digitValue_digit: "d < 10 \<Longrightarrow> digitValue (char_of (48 + d)) = Some d"
  by (simp add: digitValue_def Let_def)

lemma digitsValue_showNat: "digitsValue 10 0 (showNat n) = Some n"
proof (induction n rule: showNat.induct)
  case (1 n)
  show ?case
  proof (cases "n < 10")
    case True
    then show ?thesis
      by (subst showNat.simps) (simp add: digitValue_digit)
  next
    case False
    have "n mod 10 < 10" by simp
    then have d: "digitValue (char_of (48 + n mod 10)) = Some (n mod 10)"
      by (rule digitValue_digit)
    from False 1 have "digitsValue 10 0 (showNat (n div 10)) = Some (n div 10)"
      by simp
    with False d show ?thesis
      by (subst showNat.simps) (simp add: digitsValue_append)
  qed
qed

lemma digit_not_space: "isDecimalDigit c \<Longrightarrow> \<not> StrWhiteSpaceChar c"
  by (auto simp: isDecimalDigit_def StrWhiteSpaceChar_def)

lemma trimString_digits:
  assumes "s \<noteq> []" and "\<forall>c \<in> set s. isDecimalDigit c"
  shows "trimString s = s"
proof -
  have "\<not> StrWhiteSpaceChar (hd s)"
    using assms by (simp add: digit_not_space)
  then have a: "dropWhile StrWhiteSpaceChar s = s"
    by (simp add: dropWhile_eq_self_iff)
  have "\<not> StrWhiteSpaceChar (hd (rev s))"
    using assms by (simp add: digit_not_space hd_rev)
  then have "dropWhile StrWhiteSpaceChar (rev s) = rev s"
    by (simp add: dropWhile_eq_self_iff)
  with a show ?thesis
    by (simp add: trimString_def)
qed

lemma digit_facts:
  assumes "isDecimalDigit c"
  shows "c \<noteq> CHR ''b''" "c \<noteq> CHR ''B''" "c \<noteq> CHR ''o''" "c \<noteq> CHR ''O''"
    "c \<noteq> CHR ''x''" "c \<noteq> CHR ''X''" "c \<noteq> CHR ''+''" "c \<noteq> CHR ''-''" "c \<noteq> CHR ''I''"
  using assms by (auto simp: isDecimalDigit_def)

lemma NonDecimal_digits:
  assumes "\<forall>c \<in> set s. isDecimalDigit c"
  shows "NonDecimalIntegerLiteral s = None"
  using assms
  by (auto simp: NonDecimalIntegerLiteral_def digit_facts split: list.splits)

lemma Number_digits:
  assumes "s \<noteq> []" and "\<forall>c \<in> set s. isDecimalDigit c" and "digitsValue 10 0 s = Some n"
  shows "StringToNumber s = Fin (of_nat n)"
proof -
  obtain c cs where s: "s = c # cs"
    using assms(1) by (cases s) auto
  have c: "isDecimalDigit c"
    using assms(2) s by simp
  have inf: "s \<noteq> ''Infinity''"
    using c s digit_facts(9) by auto
  have tw: "takeWhile isDecimalDigit s = s" "dropWhile isDecimalDigit s = []"
    using assms(2) by (simp_all add: takeWhile_eq_all_conv)
  have "StrUnsignedDecimalLiteral s = Fin (of_nat n)"
    unfolding StrUnsignedDecimalLiteral_def Let_def tw
    using assms(1,3) inf by (simp add: ExponentPart_def scale10_def)
  then have "StrDecimalLiteral s = Fin (of_nat n)"
    using s c digit_facts(7,8) by (simp add: StrDecimalLiteral_def)
  then show ?thesis
    using assms(1,2) by (simp add: StringToNumber_def trimString_digits NonDecimal_digits)
qed

lemma Number_showNat: "StringToNumber (showNat n) = Fin (of_nat n)"
  using showNat_digits [of n] digitsValue_showNat [of n] by (simp add: Number_digits)


text \<open>
  Where the page parameter reads as a number, the copy in \<^verbatim>\<open>lib/api.ts\<close> and
  \<^verbatim>\<open>getUsers\<close> agree: they differ only in \<^verbatim>\<open>|| 0\<close>, which replaces \<open>NaN\<close> (and 0) by 0.
\<close>

lemma getUsers_lib_numeric:
  assumes "ToNumber (pageParam_of searchParams) \<noteq> NaN"
  shows "getUsers_lib env fetch searchParams = getUsers env fetch searchParams"
proof -
  have same: "num_or (ToNumber (pageParam_of searchParams)) (Fin 0)
        = ToNumber (pageParam_of searchParams)"
    using assms by (cases "ToNumber (pageParam_of searchParams)") (simp_all add: num_or_def)
  show ?thesis
    unfolding getUsers_def getUsers_lib_def Let_def same by (rule refl)
qed

text \<open>
  What \<^verbatim>\<open>getUserPosts\<close> does when \<^verbatim>\<open>fetch\<close> rejects, when the response is not OK, and
  when the response is OK and its body parses.
\<close>

lemma getUserPosts_degrades:
  assumes "req = read_request (BASE_URL env @ ''/api/v1/users/'' @ uid @ ''/posts'')"
  shows "(\<forall>e. fetch req = Rejects e \<longrightarrow> fst (getUserPosts env fetch uid) = Returned (JArr []))
   \<and> (\<forall>res. fetch req = Resolves res \<and> \<not> res_ok res \<longrightarrow>
         fst (getUserPosts env fetch uid) = Returned (JArr []))
   \<and> (\<forall>res v. fetch req = Resolves res \<and> res_ok res \<and> res_json res = Inr v \<longrightarrow>
         fst (getUserPosts env fetch uid) = Returned v)"
  using assms by (simp add: getUserPosts_def)

subsection \<open>The claims\<close>







text \<open>
  C3 (as amended). For every id, \<^verbatim>\<open>getUserPreferences\<close> never raises, and it returns
  \<^verbatim>\<open>null\<close> when the transport fails, when the backend responds with a status that is
  not OK, when the body of an OK response cannot be read as JSON, and when the payload of an
  OK response has a truthy \<open>error\<close> field; otherwise (the payload has no \<open>error\<close>
  field, or a falsy one) it returns the parsed payload unchanged.
\<close>

theorem getUserPreferences_absence:
  assumes "req = read_request (BASE_URL env @ ''/api/v1/users/'' @ uid @ ''/preferences'')"
  shows "(\<forall>e. fetch req = Rejects e \<longrightarrow>
            fst (getUserPreferences env fetch uid) = Returned JNull)
   \<and> (\<forall>res. fetch req = Resolves res \<and> \<not> res_ok res \<longrightarrow>
         fst (getUserPreferences env fetch uid) = Returned JNull)
   \<and> (\<forall>res e. fetch req = Resolves res \<and> res_ok res \<and> res_json res = Inl e \<longrightarrow>
         fst (getUserPreferences env fetch uid) = Returned JNull)
   \<and> (\<forall>res d. fetch req = Resolves res \<and> res_ok res \<and> res_json res = Inr d
         \<and> truthy (field d ''error'') \<longrightarrow>
         fst (getUserPreferences env fetch uid) = Returned JNull)
   \<and> (\<forall>res d. fetch req = Resolves res \<and> res_ok res \<and> res_json res = Inr d
         \<and> d \<noteq> JUndefined \<and> \<not> truthy (field d ''error'') \<longrightarrow>
         fst (getUserPreferences env fetch uid) = Returned d)
   \<and> (\<forall>e. fst (getUserPreferences env fetch uid) \<noteq> Raised e)"
proof -
  have null_payload: "nullish d \<Longrightarrow> d \<noteq> JUndefined \<Longrightarrow> d = JNull" for d
    by (cases d) simp_all
  show ?thesis
    using assms null_payload
    by (auto simp: getUserPreferences_def get_prop_def Let_def
        split: fetch_outcome.splits sum.splits if_splits)
qed

theorem getUserPreferences_absence_witness:
  "fst (getUserPreferences None unreachable ''1'') = Returned JNull
   \<and> fst (getUserPreferences None (respond (error_response 404)) ''1'') = Returned JNull
   \<and> fst (getUserPreferences None
            (respond (ok_response (JObj [(''status'', JNum (Fin 404)),
                                         (''error'', JStr ''Not Found'')]))) ''1'')
     = Returned JNull
   \<and> fst (getUserPreferences None (respond (ok_response (JObj [(''theme'', JStr ''dark'')])))
            ''1'')
     = Returned (JObj [(''theme'', JStr ''dark'')])"
  using getUserPreferences_absence
          [of "read_request (BASE_URL None @ ''/api/v1/users/'' @ ''1'' @ ''/preferences'')"
              None "''1''" unreachable]
        getUserPreferences_absence
          [of "read_request (BASE_URL None @ ''/api/v1/users/'' @ ''1'' @ ''/preferences'')"
              None "''1''" "respond (error_response 404)"]
        getUserPreferences_absence
          [of "read_request (BASE_URL None @ ''/api/v1/users/'' @ ''1'' @ ''/preferences'')"
              None "''1''"
              "respond (ok_response (JObj [(''status'', JNum (Fin 404)),
                                           (''error'', JStr ''Not Found'')]))"]
        getUserPreferences_absence
          [of "read_request (BASE_URL None @ ''/api/v1/users/'' @ ''1'' @ ''/preferences'')"
              None "''1''" "respond (ok_response (JObj [(''theme'', JStr ''dark'')]))"]
  by (simp add: backend_defs)

text \<open>
  The claim as stated fails for a payload that contains an \<open>error\<close> field with a falsy
  value: \<^verbatim>\<open>{theme:"dark", error:false}\<close> has the field and is returned unchanged.
\<close>

theorem getUserPreferences_error_field_counterexample:
  "map_of [(''theme'', JStr ''dark''), (''error'', JBool False)] ''error'' = Some (JBool False)
   \<and> fst (getUserPreferences None
            (respond (ok_response (JObj [(''theme'', JStr ''dark''), (''error'', JBool False)])))
            ''1'')
     = Returned (JObj [(''theme'', JStr ''dark''), (''error'', JBool False)])
   \<and> JObj [(''theme'', JStr ''dark''), (''error'', JBool False)] \<noteq> JNull"
  by (simp add: getUserPreferences_def get_prop_def backend_defs)

text \<open>
  C4. For every form, \<^verbatim>\<open>addUser\<close> issues exactly one request, the POST to
  \<^verbatim>\<open>BASE_URL + "/api/v1/users"\<close> whose body holds \<open>username\<close>, \<open>email\<close> and \<open>name\<close> as the
  form's \<^verbatim>\<open>get\<close> gives them, \<open>roles\<close> as its \<^verbatim>\<open>getAll\<close> gives them, and \<open>status\<close>
  \<^verbatim>\<open>"ACTIVE"\<close>. It always returns: \<^verbatim>\<open>{success:true}\<close> when the backend responds OK, and
  \<^verbatim>\<open>{success:false, error:"Failed to add user"}\<close> when the backend responds with another
  status or the transport fails. No outcome is a raised error.
\<close>

theorem addUser_outcome:
  "fetches (snd (addUser env fetch formData)) = [addUser_request env formData]
   \<and> req_method (addUser_request env formData) = ''POST''
   \<and> req_url (addUser_request env formData) = BASE_URL env @ ''/api/v1/users''
   \<and> req_body (addUser_request env formData)
     = Some (JObj [(''username'', formData_get formData ''username''),
                   (''email'', formData_get formData ''email''),
                   (''name'', formData_get formData ''name''),
                   (''roles'', formData_getAll formData ''roles''),
                   (''status'', JStr ''ACTIVE'')])
   \<and> fst (addUser env fetch formData)
     = Returned (if is_ok (fetch (addUser_request env formData))
                 then \<lparr> success = True, error = None \<rparr>
                 else \<lparr> success = False, error = Some ''Failed to add user'' \<rparr>)"
  by (cases "fetch (addUser_request env formData)")
     (simp_all add: addUser_def addUser_request_def fetches_def Let_def)

theorem addUser_outcome_witness:
  "req_body (addUser_request None
      [(''username'', ''pre''), (''email'', ''pre@example.com''), (''name'', ''Pre''),
       (''roles'', ''ADMIN'')])
   = Some (JObj [(''username'', JStr ''pre''), (''email'', JStr ''pre@example.com''),
                 (''name'', JStr ''Pre''), (''roles'', JArr [JStr ''ADMIN'']),
                 (''status'', JStr ''ACTIVE'')])
   \<and> fst (addUser None (respond (ok_response (JObj [(''id'', JStr ''123'')])))
        [(''username'', ''pre''), (''email'', ''pre@example.com''), (''name'', ''Pre''),
         (''roles'', ''ADMIN'')])
     = Returned \<lparr> success = True, error = None \<rparr>
   \<and> fst (addUser None (respond (error_response 400)) [])
     = Returned \<lparr> success = False, error = Some ''Failed to add user'' \<rparr>
   \<and> fst (addUser None unreachable []) 
     = Returned \<lparr> success = False, error = Some ''Failed to add user'' \<rparr>"
  using addUser_outcome
          [of None "respond (ok_response (JObj [(''id'', JStr ''123'')]))"
              "[(''username'', ''pre''), (''email'', ''pre@example.com''), (''name'', ''Pre''),
                (''roles'', ''ADMIN'')]"]
        addUser_outcome [of None "respond (error_response 400)" "[]"]
        addUser_outcome [of None unreachable "[]"]
  by (simp add: backend_defs formData_get_def formData_getAll_def)



text \<open>
  C6. \<^verbatim>\<open>deleteUser("")\<close> and \<^verbatim>\<open>deleteUserFromHome("")\<close> raise the local validation error
  \<^verbatim>\<open>"User ID required"\<close> before any network call: whatever the configuration and the
  backend, the outcome is that error and the list of effects is empty, so no request is
  issued and no cache invalidation or redirect is signalled.
\<close>

theorem deleteUser_empty_id:
  "deleteUser env fetch [] = (Raised (Error ''User ID required''), [])
   \<and> deleteUserFromHome env fetch [] = (Raised (Error ''User ID required''), [])
   \<and> fetches (snd (deleteUser env fetch [])) = []
   \<and> revalidations (snd (deleteUser env fetch [])) = []
   \<and> redirects (snd (deleteUser env fetch [])) = []
   \<and> fetches (snd (deleteUserFromHome env fetch [])) = []
   \<and> revalidations (snd (deleteUserFromHome env fetch [])) = []
   \<and> redirects (snd (deleteUserFromHome env fetch [])) = []"
  by (simp add: deleteUser_def deleteUserFromHome_def fetches_def revalidations_def
      redirects_def)

text \<open>
  C7. The claim is that the copy of \<^verbatim>\<open>getUsers\<close> in \<^verbatim>\<open>lib/api.ts\<close> and \<^verbatim>\<open>getUsers\<close> of
  \<^verbatim>\<open>userActions.ts\<close> give equal results for every page parameter. The copy lacks the
  \<^verbatim>\<open>|| 0\<close> after \<^verbatim>\<open>Number(pageParam)\<close>: for the page parameter \<^verbatim>\<open>"abc"\<close> and the OK
  payload \<^verbatim>\<open>{}\<close>, \<^verbatim>\<open>getUsers\<close> requests page 0 and returns \<open>isFirst\<close> true, \<open>isLast\<close>
  true and \<open>pageNumber\<close> 0, while the copy requests page \<open>NaN\<close> and returns \<open>isFirst\<close>
  false, \<open>isLast\<close> false and \<open>pageNumber\<close> \<open>NaN\<close>.
\<close>

theorem getUsers_lib_non_numeric_page:
  "getUsers None (respond (ok_response (JObj []))) (Some \<lparr> page = Some ''abc'' \<rparr>)
   = (Returned \<lparr> users = JArr [], totalPages = JNum (Fin 1), isFirst = JBool True,
                  isLast = JBool True, pageNumber = JNum (Fin 0), page_size = Fin 5 \<rparr>,
      [Fetch (users_request None (Fin 0) (Fin 5))])
   \<and> getUsers_lib None (respond (ok_response (JObj []))) (Some \<lparr> page = Some ''abc'' \<rparr>)
     = (Returned \<lparr> users = JArr [], totalPages = JNum (Fin 1), isFirst = JBool False,
                    isLast = JBool False, pageNumber = JNum NaN, page_size = Fin 5 \<rparr>,
        [Fetch (users_request None NaN (Fin 5))])"
  by (simp add: getUsers_defs backend_defs Number_abc)

text \<open>
  C8. The claim is that \<^verbatim>\<open>getUserPosts\<close> never raises and gives the empty array on every
  failure. Where the backend responds OK and the body cannot be read as JSON, the promise
  of \<^verbatim>\<open>return res.json()\<close> rejects outside the \<^verbatim>\<open>try\<close> block and the call raises.
\<close>

theorem getUserPosts_unreadable_body_raises:
  "getUserPosts None
     (respond \<lparr> res_ok = True, res_status = 200, res_text = ''<html></html>'',
                res_json = Inl (SyntaxError ''Unexpected token <'') \<rparr>)
     ''1''
   = (Raised (SyntaxError ''Unexpected token <''),
      [Fetch (read_request ''http://localhost:8080/api/v1/users/1/posts'')])"
  by (simp add: getUserPosts_def backend_defs BASE_URL_def)






end
